theory Spec2Isabelle
  imports Complex_Main "HOL-Library.AList" "HOL-Library.Log_Nat"
begin

section \<open>Values shared by the two engines\<close>

text \<open>
  The adaptive engine (\<^verbatim>\<open>adaptive_engine.py\<close>) and the analytics engine
  (\<^verbatim>\<open>analytics_engine.py\<close>) are embedded as functions over explicit state.
  A Python \<^verbatim>\<open>float\<close> is the real number it denotes, and every float operation
  of the source rounds its exact result to binary64 as the interpreter does
  (\<open>double\<close> below); a decimal literal \<^verbatim>\<open>0.7\<close> of the source is \<open>double 0.7\<close>.
  The one exception is \<^verbatim>\<open>np.polyfit\<close>, whose result is the exact least-squares
  slope here.
  Python \<^verbatim>\<open>int\<close> is \<^typ>\<open>int\<close>. A \<^verbatim>\<open>dict\<close> whose iteration order the
  code observes is an association list in insertion order; \<open>AList.update\<close> keeps the
  position of a key that is present and appends a new key, as assignment to a
  Python dict does.
\<close>

datatype pyerror = TypeError | KeyError | ValueError | IndexError | ZeroDivisionError

type_synonym 'v dict = "(string \<times> 'v) list"

definition dict_get :: "'a option \<Rightarrow> 'a \<Rightarrow> 'a" where
  \<comment> \<open>\<^verbatim>\<open>d.get(key, default)\<close>, the lookup already made: \<open>None\<close> is an absent key.\<close>
  "dict_get v dflt = (case v of None \<Rightarrow> dflt | Some x \<Rightarrow> x)"

subsection \<open>Binary floating point\<close>

text \<open>
  A finite binary64 number is an integer multiple \<open>m * 2\<^sup>e\<close> with
  \<open>\<bar>m\<bar> < 2\<^sup>5\<^sup>3\<close> and \<open>e \<ge> -1074\<close>. An arithmetic operation of the interpreter
  returns the exact result rounded to the nearest such number, a tie going to the
  even \<open>m\<close>; the same holds for a decimal literal and for the quotient of two
  integers. \<open>double\<close> is that rounding: the exponent \<open>e\<close> is 52 below the binary
  logarithm of the magnitude (the spacing of the numbers around it) and never below
  the exponent \<open>-1074\<close> of the subnormal numbers. Overflow to infinity, beyond
  \<open>2\<^sup>1\<^sup>0\<^sup>2\<^sup>4\<close>, is not modelled.
\<close>

definition round_half_even :: "real \<Rightarrow> int" where
  "round_half_even y =
     (let n = \<lfloor>y\<rfloor>; r = y - of_int n
      in if r < 1 / 2 then n else if r > 1 / 2 then n + 1 else if even n then n else n + 1)"

definition ilog2 :: "real \<Rightarrow> int" where
  \<comment> \<open>the integer part of the binary logarithm of a positive number, from the number
      of bits of its integer part or of the integer part of its inverse\<close>
  "ilog2 x = (if 1 \<le> x then bitlen \<lfloor>x\<rfloor> - 1 else - bitlen (\<lceil>1 / x\<rceil> - 1))"

definition pow2 :: "int \<Rightarrow> real" where
  "pow2 e = (if 0 \<le> e then 2 ^ nat e else 1 / 2 ^ nat (- e))"

definition double :: "real \<Rightarrow> real" where
  "double x =
     (if x = 0 then 0
      else let e = max (ilog2 \<bar>x\<bar> - 52) (- 1074)
           in of_int (round_half_even (x / pow2 e)) * pow2 e)"



subsection \<open>Quiz configuration\<close>

text \<open>
  A configuration is a Python dict from key names to values of several shapes. The
  values the engine reads are integers (\<^verbatim>\<open>num_questions\<close>), lists of strings
  (\<^verbatim>\<open>question_types\<close>, \<^verbatim>\<open>focus_topics\<close>) and weight tables
  (\<^verbatim>\<open>difficulty_distribution\<close>); strings, booleans and \<^verbatim>\<open>None\<close> stand for
  the remaining entries a caller passes along.
\<close>

datatype cval =
    IntV int
  | StrV string
  | BoolV bool
  | StrListV "string list"
  | DistV "real dict"
  | NoneV

type_synonym config = "string \<rightharpoonup> cval"

definition as_int :: "cval \<Rightarrow> pyerror + int" where
  \<comment> \<open>Integer arithmetic on a configuration value; \<^verbatim>\<open>True\<close> and \<^verbatim>\<open>False\<close>
      are the integers 1 and 0 in Python, every other shape raises \<^verbatim>\<open>TypeError\<close>.\<close>
  "as_int v = (case v of IntV n \<Rightarrow> Inr n
                       | BoolV b \<Rightarrow> Inr (if b then 1 else 0)
                       | _ \<Rightarrow> Inl TypeError)"

subsection \<open>Learner profile\<close>

record datetime =
  dt_year :: nat
  dt_month :: nat
  dt_day :: nat
  dt_hour :: nat
  dt_minute :: nat
  dt_second :: nat
  dt_microsecond :: nat

text \<open>
  A naive \<^verbatim>\<open>datetime\<close> of the standard library (no time zone), as
  \<^verbatim>\<open>datetime.now()\<close> and \<^verbatim>\<open>datetime.utcnow()\<close> return it. The functions on
  it follow the library's documented meaning: the proleptic Gregorian ordinal of a
  date, the difference of two datetimes as a \<^verbatim>\<open>timedelta\<close>, normalised to
  days, seconds in \<open>[0, 86400)\<close> and microseconds in \<open>[0, 10\<^sup>6)\<close>, and the
  attributes \<^verbatim>\<open>.days\<close> and \<^verbatim>\<open>.seconds\<close> of that normal form.
\<close>

definition is_leap :: "nat \<Rightarrow> bool" where
  "is_leap y = (y mod 4 = 0 \<and> (y mod 100 \<noteq> 0 \<or> y mod 400 = 0))"

definition days_in_month :: "nat \<Rightarrow> nat \<Rightarrow> nat" where
  "days_in_month y m =
     (if m = 2 then (if is_leap y then 29 else 28)
      else if m = 4 \<or> m = 6 \<or> m = 9 \<or> m = 11 then 30 else 31)"

definition days_before_month :: "nat \<Rightarrow> nat \<Rightarrow> nat" where
  "days_before_month y m =
     ([0, 0, 31, 59, 90, 120, 151, 181, 212, 243, 273, 304, 334] ! m)
       + (if m > 2 \<and> is_leap y then 1 else 0)"

definition days_before_year :: "nat \<Rightarrow> nat" where
  "days_before_year year =
     (let y = year - 1 in y * 365 + y div 4 - y div 100 + y div 400)"

definition valid_datetime :: "datetime \<Rightarrow> bool" where
  \<comment> \<open>The ranges the \<^verbatim>\<open>datetime\<close> constructor accepts.\<close>
  "valid_datetime d =
     (1 \<le> dt_year d \<and> dt_year d \<le> 9999 \<and> 1 \<le> dt_month d \<and> dt_month d \<le> 12
      \<and> 1 \<le> dt_day d \<and> dt_day d \<le> days_in_month (dt_year d) (dt_month d)
      \<and> dt_hour d < 24 \<and> dt_minute d < 60 \<and> dt_second d < 60
      \<and> dt_microsecond d < 1000000)"

definition toordinal :: "datetime \<Rightarrow> nat" where
  "toordinal d =
     days_before_year (dt_year d) + days_before_month (dt_year d) (dt_month d) + dt_day d"

definition to_microseconds :: "datetime \<Rightarrow> int" where
  "to_microseconds d =
     (int (toordinal d) * 86400
        + int (dt_hour d * 3600 + dt_minute d * 60 + dt_second d)) * 1000000
       + int (dt_microsecond d)"

type_synonym timedelta = int
  \<comment> \<open>a duration in microseconds, possibly negative\<close>

definition dt_sub :: "datetime \<Rightarrow> datetime \<Rightarrow> timedelta" where
  "dt_sub a b = to_microseconds a - to_microseconds b"

definition td_days :: "timedelta \<Rightarrow> int" where
  "td_days t = t div 86400000000"

definition td_seconds :: "timedelta \<Rightarrow> int" where
  "td_seconds t = (t mod 86400000000) div 1000000"

record LearnerProfile =
  user_id :: string
  total_questions_answered :: int
  correct_answers :: int
  topics_mastery :: "real dict"
  bloom_performance :: "real dict"
  average_time_per_question :: real
  learning_velocity :: real
  last_session :: "datetime option"
  strengths :: "string list"
  weaknesses :: "string list"
  preferred_question_types :: "string list"

subsection \<open>Records passed between the engines\<close>

text \<open>
  The analytics engine hands the adaptive engine two dicts: the learning history
  (\<^verbatim>\<open>get_user_history\<close>) with its session summaries (\<^verbatim>\<open>_process_session\<close>),
  and the quiz report (\<^verbatim>\<open>generate_report\<close>). They are records here. A key its
  producer always sets is a plain field, so the default of a \<^verbatim>\<open>.get(key, default)\<close>
  on such a key has no counterpart; a key the producer may leave out is an option
  field.
\<close>

record session =
  s_start_time :: string
  s_end_time :: string
  s_questions_answered :: int
  s_correct_answers :: int
  s_topic_performance :: "real dict"
  s_bloom_performance :: "real dict"
  s_accuracy :: real

record history =
  h_user_id :: string
  recent_sessions :: "session list"

record answer =
  \<comment> \<open>one submitted answer, a dict of the request; \<open>None\<close> is an absent key\<close>
  a_is_correct :: "bool option"
  a_time_taken :: "real option"
  a_topic :: "string option"
  a_bloom_level :: "string option"
  a_question_type :: "string option"
  a_user_answer :: "string option"

record patterns =
  rushing :: bool
  fatigue :: bool
  guessing :: bool
  consistent :: bool
  improving :: bool
  declining :: bool

record report =
  r_quiz_id :: string
  r_timestamp :: string
  r_total_questions :: int
  r_time_taken :: "int option"
  r_answers :: "answer list"
  r_correct_answers :: int
  r_incorrect_answers :: int
  r_overall_score :: real
  r_percentage :: real
  r_average_time :: "real option"
  r_time_per_correct :: "real option"
  r_topic_scores :: "real dict"
  r_bloom_scores :: "real dict"
  r_type_scores :: "real dict"
  r_patterns :: patterns
  r_insights :: "string list"
  r_longest_correct_streak :: int
  r_longest_incorrect_streak :: int
  r_performance_trend :: string

section \<open>Adaptive engine\<close>

subsection \<open>Folding results into a profile\<close>

fun ema_update :: "real \<Rightarrow> real \<Rightarrow> real dict \<Rightarrow> real dict \<Rightarrow> real dict" where
  \<comment> \<open>The loop \<^verbatim>\<open>for key, performance in scores.items()\<close> over a mastery table:
      a new key takes the observed value, a known key the weighted mean. The source
      writes it four times, with the literals 0.7/0.3 and 0.6/0.4 as weights.\<close>
  "ema_update w_old w_new mastery [] = mastery"
| "ema_update w_old w_new mastery ((key, performance) # rest) =
     ema_update w_old w_new
       (case map_of mastery key of
          None \<Rightarrow> AList.update key performance mastery
        | Some old \<Rightarrow>
            AList.update key
              (double (double (double w_old * old) + double (double w_new * performance)))
              mastery)
       rest"

definition polyfit_slope :: "real list \<Rightarrow> real" where
  \<comment> \<open>\<^verbatim>\<open>np.polyfit(np.arange(len(y)), y, 1)[0]\<close>: the slope of the least-squares
      line through the points \<open>(i, y\<^sub>i)\<close>. Called on two points or more.\<close>
  "polyfit_slope ys =
     (let n = real (length ys);
          xs = map real [0..<length ys];
          sx = sum_list xs;
          sy = sum_list ys;
          sxy = sum_list (map2 (*) xs ys);
          sxx = sum_list (map (\<lambda>x. x * x) xs)
      in (n * sxy - sx * sy) / (n * sxx - sx * sx))"


definition identify_strengths_weaknesses :: "LearnerProfile \<Rightarrow> LearnerProfile" where
  "identify_strengths_weaknesses profile =
     (if topics_mastery profile = [] then profile
      else let sorted_topics = sort_key (\<lambda>x. - snd x) (topics_mastery profile)
           in profile
                \<lparr>strengths :=
                   map fst (filter (\<lambda>x. snd x > double 0.7) (take 3 sorted_topics)),
                 weaknesses :=
                   map fst (filter (\<lambda>x. snd x < double 0.6)
                              (drop (length sorted_topics - 3) sorted_topics))\<rparr>)"



subsection \<open>Performance level\<close>

datatype PerformanceLevel = STRUGGLING | DEVELOPING | PROFICIENT | ADVANCED

fun thresholds :: "PerformanceLevel \<Rightarrow> real" where
  "thresholds STRUGGLING = double 0.4"
| "thresholds DEVELOPING = double 0.6"
| "thresholds PROFICIENT = double 0.8"
| "thresholds ADVANCED = double 0.95"

fun level_value :: "PerformanceLevel \<Rightarrow> string" where
  "level_value STRUGGLING = ''struggling''"
| "level_value DEVELOPING = ''developing''"
| "level_value PROFICIENT = ''proficient''"
| "level_value ADVANCED = ''advanced''"

definition calculate_performance_level :: "LearnerProfile \<Rightarrow> PerformanceLevel" where
  "calculate_performance_level profile =
     (if total_questions_answered profile = 0 then DEVELOPING
      else let accuracy = double (real_of_int (correct_answers profile)
                                    / real_of_int (total_questions_answered profile))
           in if accuracy \<ge> thresholds ADVANCED then ADVANCED
              else if accuracy \<ge> thresholds PROFICIENT then PROFICIENT
              else if accuracy \<ge> thresholds DEVELOPING then DEVELOPING
              else STRUGGLING)"

subsection \<open>Difficulty distribution\<close>




subsection \<open>Topic selection\<close>







subsection \<open>Question count\<close>

definition adjust_question_count :: "config \<Rightarrow> LearnerProfile \<Rightarrow> pyerror + config" where
  "adjust_question_count config profile =
    (let base_questions = dict_get (config ''num_questions'') (IntV 10);
         timed =
           (if average_time_per_question profile > 0 then
              (if average_time_per_question profile > 120 then
                 (case as_int base_questions of
                    Inl e \<Rightarrow> Inl e
                  | Inr b \<Rightarrow> Inr (config(''num_questions'' \<mapsto> IntV (max 5 (b - 2)))))
               else if average_time_per_question profile < 30 then
                 (case as_int base_questions of
                    Inl e \<Rightarrow> Inl e
                  | Inr b \<Rightarrow> Inr (config(''num_questions'' \<mapsto> IntV (min 20 (b + 2)))))
               else Inr config)
            else Inr config)
     in case timed of
          Inl e \<Rightarrow> Inl e
        | Inr config1 \<Rightarrow>
            (if learning_velocity profile > double 0.1 then
               (case as_int base_questions of
                  Inl e \<Rightarrow> Inl e
                | Inr b \<Rightarrow> Inr (config1(''num_questions'' \<mapsto> IntV (min 20 (b + 3)))))
             else if learning_velocity profile < - double 0.1 then
               (case as_int base_questions of
                  Inl e \<Rightarrow> Inl e
                | Inr b \<Rightarrow> Inr (config1(''num_questions'' \<mapsto> IntV (max 5 (b - 3)))))
             else Inr config1))"

subsection \<open>Question types\<close>



subsection \<open>The engine and its entry points\<close>

record engine =
  learner_profiles :: "string \<rightharpoonup> LearnerProfile"

definition new_profile :: "string \<Rightarrow> LearnerProfile" where
  \<comment> \<open>\<^verbatim>\<open>LearnerProfile(user_id=user_id)\<close> after \<^verbatim>\<open>__post_init__\<close>\<close>
  "new_profile uid =
     \<lparr>user_id = uid, total_questions_answered = 0, correct_answers = 0,
      topics_mastery = [], bloom_performance = [], average_time_per_question = 0,
      learning_velocity = 0, last_session = None, strengths = [], weaknesses = [],
      preferred_question_types = []\<rparr>"

definition get_or_create_profile :: "engine \<Rightarrow> string \<Rightarrow> engine \<times> LearnerProfile" where
  "get_or_create_profile e uid =
     (case learner_profiles e uid of
        None \<Rightarrow> (e\<lparr>learner_profiles := (learner_profiles e)(uid \<mapsto> new_profile uid)\<rparr>,
                 new_profile uid)
      | Some p \<Rightarrow> (e, p))"


definition update_user_model :: "engine \<Rightarrow> string \<Rightarrow> report \<Rightarrow> datetime \<Rightarrow> engine" where
  \<comment> \<open>The last argument is the reading of \<^verbatim>\<open>datetime.now()\<close>.\<close>
  "update_user_model e uid quiz_report now =
     (let (e1, profile) = get_or_create_profile e uid;
          p1 = profile
                 \<lparr>total_questions_answered :=
                    total_questions_answered profile + r_total_questions quiz_report,
                  correct_answers := correct_answers profile + r_correct_answers quiz_report,
                  topics_mastery :=
                    ema_update 0.6 0.4 (topics_mastery profile) (r_topic_scores quiz_report),
                  bloom_performance :=
                    ema_update 0.6 0.4 (bloom_performance profile) (r_bloom_scores quiz_report)\<rparr>;
          p2 = (case r_average_time quiz_report of
                  None \<Rightarrow> p1
                | Some t \<Rightarrow>
                    (if average_time_per_question p1 = 0
                     then p1\<lparr>average_time_per_question := t\<rparr>
                     else p1\<lparr>average_time_per_question :=
                               double (double (double 0.7 * average_time_per_question p1)
                                         + double (double 0.3 * t))\<rparr>));
          p3 = p2\<lparr>last_session := Some now\<rparr>;
          p4 = identify_strengths_weaknesses p3
      in e1\<lparr>learner_profiles := (learner_profiles e1)(uid \<mapsto> p4)\<rparr>)"

subsection \<open>Timestamps as text\<close>

text \<open>
  \<^verbatim>\<open>datetime.isoformat()\<close> of a naive datetime writes
  \<^verbatim>\<open>YYYY-MM-DDTHH:MM:SS\<close>, followed by \<^verbatim>\<open>.ffffff\<close> when the microsecond is
  not zero. \<^verbatim>\<open>datetime.fromisoformat\<close> is modelled on exactly these strings and
  raises \<^verbatim>\<open>ValueError\<close> on every other one; the further ISO 8601 forms the
  library reads are never written by the two engines.
\<close>

definition digit :: "nat \<Rightarrow> char" where
  "digit n = ''0123456789'' ! (n mod 10)"

definition pad2 :: "nat \<Rightarrow> string" where
  "pad2 n = [digit (n div 10), digit n]"

definition pad4 :: "nat \<Rightarrow> string" where
  "pad4 n = [digit (n div 1000), digit (n div 100), digit (n div 10), digit n]"

definition pad6 :: "nat \<Rightarrow> string" where
  "pad6 n = [digit (n div 100000), digit (n div 10000), digit (n div 1000),
             digit (n div 100), digit (n div 10), digit n]"

definition isoformat :: "datetime \<Rightarrow> string" where
  "isoformat d =
     pad4 (dt_year d) @ ''-'' @ pad2 (dt_month d) @ ''-'' @ pad2 (dt_day d) @ ''T''
       @ pad2 (dt_hour d) @ '':'' @ pad2 (dt_minute d) @ '':'' @ pad2 (dt_second d)
       @ (if dt_microsecond d = 0 then [] else ''.'' @ pad6 (dt_microsecond d))"

definition digit_val :: "char \<Rightarrow> nat option" where
  "digit_val c =
     (if c = CHR ''0'' then Some 0 else if c = CHR ''1'' then Some 1
      else if c = CHR ''2'' then Some 2 else if c = CHR ''3'' then Some 3
      else if c = CHR ''4'' then Some 4 else if c = CHR ''5'' then Some 5
      else if c = CHR ''6'' then Some 6 else if c = CHR ''7'' then Some 7
      else if c = CHR ''8'' then Some 8 else if c = CHR ''9'' then Some 9
      else None)"

fun number_from :: "nat \<Rightarrow> string \<Rightarrow> nat option" where
  \<comment> \<open>the decimal number a string of digits denotes, continuing from the value read so far\<close>
  "number_from acc [] = Some acc"
| "number_from acc (c # cs) =
     (case digit_val c of None \<Rightarrow> None | Some v \<Rightarrow> number_from (10 * acc + v) cs)"

definition fromisoformat :: "string \<Rightarrow> pyerror + datetime" where
  "fromisoformat str =
     (if (length str = 19 \<or> length str = 26)
         \<and> str ! 4 = CHR ''-'' \<and> str ! 7 = CHR ''-'' \<and> str ! 10 = CHR ''T''
         \<and> str ! 13 = CHR '':'' \<and> str ! 16 = CHR '':''
         \<and> (if length str = 26 then str ! 19 = CHR ''.'' else True)
      then
        (case (number_from 0 (take 4 str), number_from 0 (take 2 (drop 5 str)),
               number_from 0 (take 2 (drop 8 str)), number_from 0 (take 2 (drop 11 str)),
               number_from 0 (take 2 (drop 14 str)), number_from 0 (take 2 (drop 17 str)),
               number_from 0 (drop 20 str)) of
           (Some y, Some m, Some d, Some h, Some mi, Some sec, Some us) \<Rightarrow>
             (let dt = \<lparr>dt_year = y, dt_month = m, dt_day = d, dt_hour = h,
                        dt_minute = mi, dt_second = sec, dt_microsecond = us\<rparr>
              in if valid_datetime dt then Inr dt else Inl ValueError)
         | _ \<Rightarrow> Inl ValueError)
      else Inl ValueError)"

subsection \<open>Saving and restoring a profile\<close>

text \<open>
  The saved record is read back from outside the engine, so for
  \<^verbatim>\<open>import_profile\<close> each key may be absent (\<open>None\<close>); \<^verbatim>\<open>export_profile\<close>
  sets them all. In \<open>pd_last_session\<close>, \<open>None\<close> is also the value
  \<^verbatim>\<open>None\<close> that an unset timestamp is exported as: \<^verbatim>\<open>.get('last_session')\<close>
  treats both alike.
\<close>

record profile_data =
  pd_user_id :: "string option"
  pd_total_questions :: "int option"
  pd_correct_answers :: "int option"
  pd_accuracy :: "real option"
  pd_topics_mastery :: "real dict option"
  pd_bloom_performance :: "real dict option"
  pd_strengths :: "string list option"
  pd_weaknesses :: "string list option"
  pd_last_session :: "string option"
  pd_learning_velocity :: "real option"
  pd_performance_level :: "string option"

definition export_profile :: "engine \<Rightarrow> string \<Rightarrow> engine \<times> profile_data" where
  "export_profile e uid =
     (let (e1, profile) = get_or_create_profile e uid
      in (e1,
          \<lparr>pd_user_id = Some (user_id profile),
           pd_total_questions = Some (total_questions_answered profile),
           pd_correct_answers = Some (correct_answers profile),
           pd_accuracy = Some (real_of_int (correct_answers profile)
                                / real_of_int (max 1 (total_questions_answered profile))),
           pd_topics_mastery = Some (topics_mastery profile),
           pd_bloom_performance = Some (bloom_performance profile),
           pd_strengths = Some (strengths profile),
           pd_weaknesses = Some (weaknesses profile),
           pd_last_session = (case last_session profile of
                                None \<Rightarrow> None | Some d \<Rightarrow> Some (isoformat d)),
           pd_learning_velocity = Some (learning_velocity profile),
           pd_performance_level = Some (level_value (calculate_performance_level profile))\<rparr>))"

definition import_profile :: "engine \<Rightarrow> profile_data \<Rightarrow> pyerror + engine" where
  "import_profile e pd =
     (case pd_user_id pd of
        None \<Rightarrow> Inl KeyError
      | Some uid \<Rightarrow>
          (let profile =
                 \<lparr>user_id = uid,
                  total_questions_answered = dict_get (pd_total_questions pd) 0,
                  correct_answers = dict_get (pd_correct_answers pd) 0,
                  topics_mastery = dict_get (pd_topics_mastery pd) [],
                  bloom_performance = dict_get (pd_bloom_performance pd) [],
                  average_time_per_question = 0,
                  learning_velocity = dict_get (pd_learning_velocity pd) 0,
                  last_session = None,
                  strengths = dict_get (pd_strengths pd) [],
                  weaknesses = dict_get (pd_weaknesses pd) [],
                  preferred_question_types = []\<rparr>;
               parsed =
                 (case pd_last_session pd of
                    None \<Rightarrow> Inr profile
                  | Some str \<Rightarrow>
                      (if str = [] then Inr profile
                       else (case fromisoformat str of
                               Inl err \<Rightarrow> Inl err
                             | Inr d \<Rightarrow> Inr (profile\<lparr>last_session := Some d\<rparr>))))
           in case parsed of
                Inl err \<Rightarrow> Inl err
              | Inr p \<Rightarrow> Inr (e\<lparr>learner_profiles := (learner_profiles e)(uid \<mapsto> p)\<rparr>)))"

section \<open>Analytics engine\<close>

subsection \<open>State\<close>

text \<open>
  An event of a learner's log. The metadata of a generated quiz is stored and never
  read, so its type is left open.
\<close>

datatype 'm event =
    QuizGenerated (ev_user_id: string) (ev_timestamp: string) (ev_metadata: 'm)
  | AnswerSubmitted (ev_user_id: string) (ev_question_id: string) (ev_timestamp: string)
      (ev_data: answer)

record question_stats =
  attempts :: int
  correct :: int
  average_time :: real
  difficulty_rating :: "real list"
  common_mistakes :: "int dict"

record 'm analytics =
  sessions :: "string \<rightharpoonup> 'm event list"
  quiz_results :: "string \<rightharpoonup> report"
  question_analytics :: "string \<rightharpoonup> question_stats"

definition is_correct :: "answer \<Rightarrow> bool" where
  \<comment> \<open>the truth value of \<^verbatim>\<open>a.get('is_correct')\<close>\<close>
  "is_correct a = (a_is_correct a = Some True)"

definition append_event :: "'m analytics \<Rightarrow> string \<Rightarrow> 'm event \<Rightarrow> 'm analytics" where
  \<comment> \<open>\<^verbatim>\<open>self.sessions[user_id].append(event)\<close> on a \<^verbatim>\<open>defaultdict(list)\<close>\<close>
  "append_event st uid ev =
     st\<lparr>sessions := (sessions st)(uid \<mapsto> dict_get (sessions st uid) [] @ [ev])\<rparr>"

subsection \<open>Recording events\<close>

definition track_quiz_generation ::
    "'m analytics \<Rightarrow> string \<Rightarrow> 'm \<Rightarrow> datetime \<Rightarrow> 'm analytics" where
  \<comment> \<open>The last argument is the reading of \<^verbatim>\<open>datetime.utcnow()\<close>.\<close>
  "track_quiz_generation st uid metadata now =
     append_event st uid (QuizGenerated uid (isoformat now) metadata)"

definition track_answer ::
    "'m analytics \<Rightarrow> string \<Rightarrow> string \<Rightarrow> answer \<Rightarrow> datetime \<Rightarrow> pyerror + 'm analytics" where
  \<comment> \<open>The last argument is the reading of \<^verbatim>\<open>datetime.utcnow()\<close>.\<close>
  "track_answer st uid question_id answer_data now =
     (let a0 = dict_get (question_analytics st question_id)
                 \<lparr>attempts = 0, correct = 0, average_time = 0, difficulty_rating = [],
                  common_mistakes = []\<rparr>;
          a1 = a0\<lparr>attempts := attempts a0 + 1\<rparr>;
          a2 = (if is_correct answer_data then a1\<lparr>correct := correct a1 + 1\<rparr>
                else (case a_user_answer answer_data of
                        None \<Rightarrow> a1
                      | Some wrong_answer \<Rightarrow>
                          (if wrong_answer \<noteq> [] then
                             a1\<lparr>common_mistakes :=
                                  AList.update wrong_answer
                                    (dict_get (map_of (common_mistakes a1) wrong_answer) 0 + 1)
                                    (common_mistakes a1)\<rparr>
                           else a1)));
          a3 = (case a_time_taken answer_data of
                  None \<Rightarrow> Inr a2
                | Some time_taken \<Rightarrow>
                    (let current_avg = average_time a2; n = attempts a2
                     in if n = 0 then Inl ZeroDivisionError
                        else Inr (a2\<lparr>average_time :=
                                      double
                                        (double (double (current_avg * real_of_int (n - 1))
                                                   + time_taken)
                                           / real_of_int n)\<rparr>)))
      in case a3 of
           Inl err \<Rightarrow> Inl err
         | Inr a \<Rightarrow>
             Inr (append_event
                    (st\<lparr>question_analytics := (question_analytics st)(question_id \<mapsto> a)\<rparr>)
                    uid (AnswerSubmitted uid question_id (isoformat now) answer_data)))"

subsection \<open>Patterns, streaks and trend of one quiz\<close>

definition accuracy_of :: "answer list \<Rightarrow> pyerror + real" where
  \<comment> \<open>\<^verbatim>\<open>sum(1 for a in xs if a.get('is_correct')) / len(xs)\<close>, the quotient of
      two integers as a float\<close>
  "accuracy_of xs =
     (if xs = [] then Inl ZeroDivisionError
      else Inr (double (real (length (filter is_correct xs)) / real (length xs))))"

definition mean :: "real list \<Rightarrow> real" where
  \<comment> \<open>\<^verbatim>\<open>statistics.mean\<close> adds the data as exact fractions and rounds the quotient;
      it is called on a non-empty list only\<close>
  "mean xs = double (sum_list xs / real (length xs))"

definition no_patterns :: patterns where
  "no_patterns = \<lparr>rushing = False, fatigue = False, guessing = False, consistent = False,
                  improving = False, declining = False\<rparr>"

definition identify_patterns :: "answer list \<Rightarrow> pyerror + patterns" where
  \<comment> \<open>The time of an answer is a number: \<^verbatim>\<open>statistics.mean\<close> has no failing case
      on a non-empty list of numbers. The three quotients can fail.\<close>
  "identify_patterns answers =
     (if answers = [] then Inr no_patterns
      else
        let times = map (\<lambda>a. dict_get (a_time_taken a) 0)
                      (filter (\<lambda>a. a_time_taken a \<noteq> None) answers);
            p1 = (if times \<noteq> [] \<and> mean times < 10
                  then no_patterns\<lparr>rushing := True\<rparr> else no_patterns);
            mc_answers = filter (\<lambda>a. a_question_type a = Some ''multiple_choice'') answers
        in case (if length answers \<ge> 5 then
                   (let first_half = take (length answers div 2) answers;
                        second_half = drop (length answers div 2) answers
                    in case accuracy_of first_half of
                         Inl err \<Rightarrow> Inl err
                       | Inr first_accuracy \<Rightarrow>
                           (case accuracy_of second_half of
                              Inl err \<Rightarrow> Inl err
                            | Inr second_accuracy \<Rightarrow>
                                Inr (if second_accuracy < double (first_accuracy - double 0.2)
                                     then p1\<lparr>fatigue := True, declining := True\<rparr>
                                     else if second_accuracy
                                               > double (first_accuracy + double 0.2)
                                     then p1\<lparr>improving := True\<rparr>
                                     else p1)))
                 else Inr p1) of
             Inl err \<Rightarrow> Inl err
           | Inr p2 \<Rightarrow>
               (case (if mc_answers \<noteq> [] then
                        (case accuracy_of mc_answers of
                           Inl err \<Rightarrow> Inl err
                         | Inr mc_accuracy \<Rightarrow>
                             Inr (if double 0.2 \<le> mc_accuracy \<and> mc_accuracy \<le> double 0.3
                                  then p2\<lparr>guessing := True\<rparr> else p2))
                      else Inr p2) of
                  Inl err \<Rightarrow> Inl err
                | Inr p3 \<Rightarrow>
                    Inr (if length answers \<ge> 3 then
                           (let correctness = map (\<lambda>a. dict_get (a_is_correct a) False) answers;
                                changes =
                                  length (filter (\<lambda>i. correctness ! i \<noteq> correctness ! (i - 1))
                                            [1..<length correctness])
                            in if real changes
                                    \<le> double (double (real (length correctness)) * double 0.3)
                               then p3\<lparr>consistent := True\<rparr> else p3)
                         else p3)))"

fun streak_loop :: "bool \<Rightarrow> answer list \<Rightarrow> int \<Rightarrow> int \<Rightarrow> int" where
  \<comment> \<open>the loop of \<^verbatim>\<open>_calculate_streak\<close> with \<^verbatim>\<open>max_streak\<close> and
      \<^verbatim>\<open>current_streak\<close>\<close>
  "streak_loop c [] max_streak current_streak = max_streak"
| "streak_loop c (a # rest) max_streak current_streak =
     (if dict_get (a_is_correct a) False = c
      then streak_loop c rest (max max_streak (current_streak + 1)) (current_streak + 1)
      else streak_loop c rest max_streak 0)"

definition calculate_streak :: "answer list \<Rightarrow> bool \<Rightarrow> int" where
  "calculate_streak answers c = (if answers = [] then 0 else streak_loop c answers 0 0)"

definition calculate_trend :: "answer list \<Rightarrow> string" where
  "calculate_trend answers =
     (if length answers < 3 then ''insufficient_data''
      else
        let window_size = min 3 (length answers div 3);
            accuracies =
              map (\<lambda>i. double
                         (real (length (filter is_correct (take window_size (drop i answers))))
                            / real window_size))
                  [0..<length answers - window_size + 1]
        in if accuracies = [] then ''stable''
           else let slope = polyfit_slope accuracies
                in if slope > double 0.1 then ''improving''
                   else if slope < - double 0.1 then ''declining''
                   else ''stable'')"

subsection \<open>Quiz report\<close>

fun tally :: "(string \<times> bool) list \<Rightarrow> (int \<times> int) dict \<Rightarrow> (int \<times> int) dict" where
  \<comment> \<open>The counting loops of \<^verbatim>\<open>generate_report\<close> and \<^verbatim>\<open>_process_session\<close>:
      per key the pair of \<^verbatim>\<open>correct\<close> and \<^verbatim>\<open>total\<close>, a new key starting at
      zero for both.\<close>
  "tally [] perf = perf"
| "tally ((key, ok) # rest) perf =
     (let (c, t) = dict_get (map_of perf key) (0, 0)
      in tally rest (AList.update key (if ok then c + 1 else c, t + 1) perf))"

definition guarded_scores :: "(int \<times> int) dict \<Rightarrow> real dict" where
  \<comment> \<open>\<^verbatim>\<open>data['correct'] / data['total'] if data['total'] > 0 else 0\<close>\<close>
  "guarded_scores perf =
     map (\<lambda>(key, (c, t)). (key, if t > 0 then double (real_of_int c / real_of_int t) else 0))
       perf"

fun scores :: "(int \<times> int) dict \<Rightarrow> pyerror + real dict" where
  \<comment> \<open>\<^verbatim>\<open>data['correct'] / data['total']\<close>, unguarded, as for \<^verbatim>\<open>topic_scores\<close>\<close>
  "scores [] = Inr []"
| "scores ((key, (c, t)) # rest) =
     (if t = 0 then Inl ZeroDivisionError
      else (case scores rest of
              Inl err \<Rightarrow> Inl err
            | Inr others \<Rightarrow> Inr ((key, double (real_of_int c / real_of_int t)) # others)))"

fun join :: "string \<Rightarrow> string list \<Rightarrow> string" where
  \<comment> \<open>\<^verbatim>\<open>sep.join(xs)\<close>\<close>
  "join sep [] = []"
| "join sep [x] = x"
| "join sep (x # y # rest) = x @ sep @ join sep (y # rest)"

definition generate_insights :: "report \<Rightarrow> string list" where
  \<comment> \<open>Reads the score, the topic and bloom scores, the patterns and the average time
      of the report under construction.\<close>
  "generate_insights rep =
     (let score = r_overall_score rep;
          i1 = [if score \<ge> double 0.9 then ''Excellent performance! You've mastered this material.''
                else if score \<ge> double 0.7 then ''Good understanding. Focus on the topics you missed.''
                else if score \<ge> double 0.5 then ''Developing understanding. More practice recommended.''
                else ''Significant gaps identified. Consider reviewing the material.''];
          weak_topics = map fst (filter (\<lambda>(t, sc). sc < double 0.6) (r_topic_scores rep));
          i2 = (if weak_topics \<noteq> []
                then i1 @ [''Focus on: '' @ join '', '' (take 3 weak_topics)] else i1);
          strong_topics = map fst (filter (\<lambda>(t, sc). sc \<ge> double 0.8) (r_topic_scores rep));
          i3 = (if strong_topics \<noteq> []
                then i2 @ [''Strong in: '' @ join '', '' (take 3 strong_topics)] else i2);
          bloom_scores = r_bloom_scores rep;
          i4 = (if dict_get (map_of bloom_scores ''remember'') 1 < double 0.6
                then i3 @ [''Strengthen factual knowledge and memorization.''] else i3);
          i5 = (if dict_get (map_of bloom_scores ''understand'') 1 < double 0.6
                then i4 @ [''Work on comprehension and explanation skills.''] else i4);
          i6 = (if dict_get (map_of bloom_scores ''apply'') 1 < double 0.6
                then i5 @ [''Practice applying concepts to new situations.''] else i5);
          i7 = (if dict_get (map_of bloom_scores ''analyze'') 1 < double 0.6
                then i6 @ [''Develop analytical and critical thinking skills.''] else i6);
          pats = r_patterns rep;
          i8 = (if rushing pats
                then i7 @ [''Take more time to read questions carefully.''] else i7);
          i9 = (if fatigue pats
                then i8 @ [''Consider taking breaks during longer quizzes.''] else i8);
          i10 = (if guessing pats
                 then i9 @ [''Review the material before attempting quizzes.''] else i9);
          i11 = (if improving pats
                 then i10 @ [''Great progress! You're warming up nicely.''] else i10);
          avg_time = dict_get (r_average_time rep) 0
      in if avg_time > 120
         then i11 @ [''You're being thorough, but try to improve speed.'']
         else if avg_time < 20
         then i11 @ [''Consider spending more time on each question.'']
         else i11)"

definition generate_report ::
    "'m analytics \<Rightarrow> string \<Rightarrow> answer list \<Rightarrow> int option \<Rightarrow> datetime
       \<Rightarrow> pyerror + ('m analytics \<times> report)" where
  \<comment> \<open>\<open>time_taken\<close> is \<open>None\<close> for the value \<^verbatim>\<open>None\<close> that a request without
      the field passes; the last argument is the reading of \<^verbatim>\<open>datetime.utcnow()\<close>.
      The report is filled in the order of the source; the fields written after
      \<^verbatim>\<open>_generate_insights\<close> hold their final values only in the result.\<close>
  "generate_report st quiz_id answers time_taken now =
     (let n = int (length answers);
          correct_count = int (length (filter is_correct answers));
          overall = (if answers \<noteq> []
                     then double (real_of_int correct_count / real_of_int n) else 0);
          timed = (dict_get time_taken 0 \<noteq> 0 \<and> n \<noteq> 0);
          topic_performance =
            tally (map (\<lambda>a. (dict_get (a_topic a) ''General'', is_correct a)) answers) [];
          bloom_perf =
            tally (map (\<lambda>a. (dict_get (a_bloom_level a) ''understand'', is_correct a)) answers) [];
          type_performance =
            tally (map (\<lambda>a. (dict_get (a_question_type a) ''unknown'', is_correct a)) answers) []
      in case scores topic_performance of
           Inl err \<Rightarrow> Inl err
         | Inr topic_scores \<Rightarrow>
           (case identify_patterns answers of
              Inl err \<Rightarrow> Inl err
            | Inr pats \<Rightarrow>
             (let rep0 =
                    \<lparr>r_quiz_id = quiz_id,
                     r_timestamp = isoformat now,
                     r_total_questions = n,
                     r_time_taken = time_taken,
                     r_answers = answers,
                     r_correct_answers = correct_count,
                     r_incorrect_answers = n - correct_count,
                     r_overall_score = overall,
                     r_percentage = double (overall * 100),
                     r_average_time =
                       (if timed
                        then Some (double (real_of_int (dict_get time_taken 0) / real_of_int n))
                        else None),
                     r_time_per_correct =
                       (if timed
                        then Some (if correct_count \<noteq> 0
                                   then double (real_of_int (dict_get time_taken 0)
                                                  / real_of_int correct_count)
                                   else 0)
                        else None),
                     r_topic_scores = topic_scores,
                     r_bloom_scores = guarded_scores bloom_perf,
                     r_type_scores = guarded_scores type_performance,
                     r_patterns = pats,
                     r_insights = [],
                     r_longest_correct_streak = 0,
                     r_longest_incorrect_streak = 0,
                     r_performance_trend = []\<rparr>;
                  rep = rep0
                    \<lparr>r_insights := generate_insights rep0,
                     r_longest_correct_streak := calculate_streak answers True,
                     r_longest_incorrect_streak := calculate_streak answers False,
                     r_performance_trend := calculate_trend answers\<rparr>
              in Inr (st\<lparr>quiz_results := (quiz_results st)(quiz_id \<mapsto> rep)\<rparr>, rep))))"

subsection \<open>Session summaries\<close>

definition submitted :: "'m event list \<Rightarrow> answer list" where
  \<comment> \<open>the \<^verbatim>\<open>data\<close> of the events with \<^verbatim>\<open>event['type'] == 'answer_submitted'\<close>\<close>
  "submitted events =
     concat (map (\<lambda>ev. case ev of AnswerSubmitted u q t a \<Rightarrow> [a] | QuizGenerated u t m \<Rightarrow> [])
               events)"

definition process_session :: "'m event list \<Rightarrow> pyerror + session" where
  "process_session events =
     (case events of
        [] \<Rightarrow> Inl IndexError
      | first # _ \<Rightarrow>
          (let answered = submitted events;
               questions = int (length answered);
               right = int (length (filter is_correct answered));
               topic_performance =
                 tally (map (\<lambda>a. (dict_get (a_topic a) ''General'', is_correct a)) answered) [];
               bloom_perf =
                 tally (map (\<lambda>a. (dict_get (a_bloom_level a) ''understand'', is_correct a))
                          answered) []
           in Inr \<lparr>s_start_time = ev_timestamp first,
                   s_end_time = ev_timestamp (last events),
                   s_questions_answered = questions,
                   s_correct_answers = right,
                   s_topic_performance = guarded_scores topic_performance,
                   s_bloom_performance = guarded_scores bloom_perf,
                   s_accuracy = (if questions > 0
                                 then double (real_of_int right / real_of_int questions)
                                 else 0)\<rparr>))"

fun group_events ::
    "'m event list \<Rightarrow> session list \<Rightarrow> 'm event list \<Rightarrow> datetime option
       \<Rightarrow> pyerror + (session list \<times> 'm event list)" where
  \<comment> \<open>The loop of \<^verbatim>\<open>get_user_history\<close> over the learner's events, with its
      variables \<^verbatim>\<open>sessions\<close>, \<^verbatim>\<open>current_session\<close> and \<^verbatim>\<open>last_timestamp\<close>.\<close>
  "group_events [] summaries current_session last_timestamp = Inr (summaries, current_session)"
| "group_events (ev # rest) summaries current_session last_timestamp =
     (case fromisoformat (ev_timestamp ev) of
        Inl err \<Rightarrow> Inl err
      | Inr timestamp \<Rightarrow>
          (let gap = (case last_timestamp of
                        None \<Rightarrow> False
                      | Some l \<Rightarrow> td_seconds (dt_sub timestamp l) > 3600);
               closed = (if gap \<and> current_session \<noteq> []
                         then (case process_session current_session of
                                 Inl err \<Rightarrow> Inl err
                               | Inr summary \<Rightarrow> Inr (summaries @ [summary]))
                         else Inr summaries)
           in case closed of
                Inl err \<Rightarrow> Inl err
              | Inr summaries1 \<Rightarrow>
                  group_events rest summaries1
                    ((if gap then [] else current_session) @ [ev]) (Some timestamp)))"

definition get_user_history :: "'m analytics \<Rightarrow> string \<Rightarrow> pyerror + history" where
  "get_user_history st uid =
     (case sessions st uid of
        None \<Rightarrow> Inr \<lparr>h_user_id = uid, recent_sessions = []\<rparr>
      | Some user_sessions \<Rightarrow>
          (case group_events user_sessions [] [] None of
             Inl err \<Rightarrow> Inl err
           | Inr (summaries, current_session) \<Rightarrow>
               (case (if current_session \<noteq> []
                      then (case process_session current_session of
                              Inl err \<Rightarrow> Inl err
                            | Inr summary \<Rightarrow> Inr (summaries @ [summary]))
                      else Inr summaries) of
                  Inl err \<Rightarrow> Inl err
                | Inr all_sessions \<Rightarrow>
                    Inr \<lparr>h_user_id = uid,
                         recent_sessions =
                           drop (length all_sessions - 10) all_sessions\<rparr>)))"

section \<open>Notions used to state the properties\<close>

definition question_count_spec :: "int \<Rightarrow> real \<Rightarrow> real \<Rightarrow> int" where
  \<comment> \<open>The question count as the specification words it: the timing adjustment first,
      then the velocity adjustment applied to its result.\<close>
  "question_count_spec requested avg_time velocity =
     (let timed = (if avg_time > 120 then max 5 (requested - 2)
                   else if 0 < avg_time \<and> avg_time < 30 then min 20 (requested + 2)
                   else requested)
      in if velocity > 0.1 then min 20 (timed + 3)
         else if velocity < - 0.1 then max 5 (timed - 3)
         else timed)"

definition exact_accuracy :: "answer list \<Rightarrow> real" where
  \<comment> \<open>the accuracy of a list of answers as a fraction, before any rounding\<close>
  "exact_accuracy xs = real (length (filter is_correct xs)) / real (length xs)"

definition answered :: "bool \<Rightarrow> answer" where
  \<comment> \<open>an answer that carries its correctness and nothing else\<close>
  "answered ok = \<lparr>a_is_correct = Some ok, a_time_taken = None, a_topic = None,
                   a_bloom_level = None, a_question_type = None, a_user_answer = None\<rparr>"

definition no_events :: "unit analytics" where
  \<comment> \<open>the analytics engine as constructed, with quiz metadata left out\<close>
  "no_events = \<lparr>sessions = Map.empty, quiz_results = Map.empty,
                 question_analytics = Map.empty\<rparr>"

definition at_time :: "nat \<Rightarrow> nat \<Rightarrow> nat \<Rightarrow> nat \<Rightarrow> nat \<Rightarrow> nat \<Rightarrow> datetime" where
  \<comment> \<open>a clock reading on a whole second\<close>
  "at_time y m d h mi s =
     \<lparr>dt_year = y, dt_month = m, dt_day = d, dt_hour = h, dt_minute = mi,
      dt_second = s, dt_microsecond = 0\<rparr>"








definition timed :: "real option \<Rightarrow> answer" where
  \<comment> \<open>a correct answer that carries its time, or no time\<close>
  "timed t = \<lparr>a_is_correct = Some True, a_time_taken = t, a_topic = None,
               a_bloom_level = None, a_question_type = None, a_user_answer = None\<rparr>"

definition attempts_before :: "'m analytics \<Rightarrow> string \<Rightarrow> int" where
  \<comment> \<open>the attempt count of a question before a call, 0 for a question not seen yet\<close>
  "attempts_before st question_id =
     (case question_analytics st question_id of None \<Rightarrow> 0 | Some s \<Rightarrow> attempts s)"

definition average_before :: "'m analytics \<Rightarrow> string \<Rightarrow> real" where
  \<comment> \<open>the average time of a question before a call, 0 for a question not seen yet\<close>
  "average_before st question_id =
     (case question_analytics st question_id of None \<Rightarrow> 0 | Some s \<Rightarrow> average_time s)"

section \<open>Properties\<close>

subsection \<open>Evaluating a rounding\<close>

lemma bitlen_numeral_simps:
  "bitlen 1 = 1"
  "bitlen (numeral (Num.Bit0 n)) = bitlen (numeral n) + 1"
  "bitlen (numeral (Num.Bit1 n)) = bitlen (numeral n) + 1"
  by (subst compute_bitlen, simp)+

lemmas double_eval = double_def ilog2_def pow2_def round_half_even_def bitlen_numeral_simps Let_def

subsection \<open>Question count\<close>

lemma double_tenth_positive: "0 < double 0.1"
  by (simp add: double_eval)

lemma adjust_question_count_velocity_up:
  assumes "learning_velocity profile > double 0.1"
    and "as_int (dict_get (config ''num_questions'') (IntV 10)) = Inr b"
  shows "\<exists>c. adjust_question_count config profile = Inr c
            \<and> c ''num_questions'' = Some (IntV (min 20 (b + 3)))"
  using assms by (auto simp: adjust_question_count_def Let_def)

lemma adjust_question_count_velocity_down:
  assumes "learning_velocity profile < - double 0.1"
    and "as_int (dict_get (config ''num_questions'') (IntV 10)) = Inr b"
  shows "\<exists>c. adjust_question_count config profile = Inr c
            \<and> c ''num_questions'' = Some (IntV (max 5 (b - 3)))"
  using assms double_tenth_positive by (auto simp: adjust_question_count_def Let_def)

text \<open>
  C2. The claim: the timing adjustment and the velocity adjustment of
  \<^verbatim>\<open>_adjust_question_count\<close> apply in sequence, so that when both conditions hold
  the final count reflects both, cumulatively. The code computes the velocity
  adjustment from \<^verbatim>\<open>base_questions\<close>, the count read before the timing adjustment,
  and overwrites the timing result with it (the two lemmas above). For a request of
  10 questions, an average time of 150 seconds and a velocity of 0.2 the code
  returns 13 questions, where the two adjustments in sequence give 11.
\<close>

theorem adjust_question_count_not_cumulative:
  "adjust_question_count [''num_questions'' \<mapsto> IntV 10]
     ((new_profile ''u'')\<lparr>average_time_per_question := 150, learning_velocity := 0.2\<rparr>)
     = Inr [''num_questions'' \<mapsto> IntV 13]
   \<and> question_count_spec 10 150 0.2 = 11"
  by (simp add: adjust_question_count_def new_profile_def dict_get_def as_int_def
        question_count_spec_def double_eval)

subsection \<open>Report of an empty quiz\<close>

text \<open>
  C10. \<^verbatim>\<open>generate_report\<close> on the empty answer list raises no error, for every quiz
  identifier and every time taken: it stores and returns a report with no questions,
  no correct answers, score 0, both longest streaks 0, the trend
  \<^verbatim>\<open>insufficient_data\<close>, every pattern flag false, and neither
  \<^verbatim>\<open>average_time\<close> nor \<^verbatim>\<open>time_per_correct\<close>.
\<close>

theorem generate_report_empty:
  "\<exists>st' rep. generate_report st quiz_id [] time_taken now = Inr (st', rep)
      \<and> quiz_results st' quiz_id = Some rep
      \<and> r_total_questions rep = 0 \<and> r_correct_answers rep = 0 \<and> r_overall_score rep = 0
      \<and> r_longest_correct_streak rep = 0 \<and> r_longest_incorrect_streak rep = 0
      \<and> r_performance_trend rep = ''insufficient_data''
      \<and> \<not> rushing (r_patterns rep) \<and> \<not> fatigue (r_patterns rep)
      \<and> \<not> guessing (r_patterns rep) \<and> \<not> consistent (r_patterns rep)
      \<and> \<not> improving (r_patterns rep) \<and> \<not> declining (r_patterns rep)
      \<and> r_average_time rep = None \<and> r_time_per_correct rep = None"
  by (simp add: generate_report_def identify_patterns_def calculate_streak_def
        calculate_trend_def no_patterns_def Let_def)

subsection \<open>Rounding to binary64\<close>

text \<open>
  The distance of a number from its rounding is at most half the spacing of the
  binary64 numbers around it, which is \<open>2\<^sup>-\<^sup>5\<^sup>3\<close> below 2.
\<close>

lemma round_half_even_error: "\<bar>of_int (round_half_even y) - y\<bar> \<le> 1 / 2"
proof -
  have "of_int \<lfloor>y\<rfloor> \<le> y" "y < of_int \<lfloor>y\<rfloor> + 1" by linarith+
  then show ?thesis by (auto simp: round_half_even_def Let_def)
qed

lemma pow2_powr: "pow2 e = 2 powr (of_int e)"
proof (cases "0 \<le> e")
  case True
  then have "2 powr (of_int e) = (2::real) powr (real (nat e))" by simp
  also have "\<dots> = 2 ^ nat e" by (rule powr_realpow) simp
  finally show ?thesis using True by (simp add: pow2_def)
next
  case False
  then have "2 powr (of_int e) = (2::real) powr (- real (nat (- e)))" by simp
  also have "\<dots> = 1 / 2 powr (real (nat (- e)))" by (simp add: powr_minus divide_simps)
  also have "2 powr (real (nat (- e))) = (2::real) ^ nat (- e)" by (rule powr_realpow) simp
  finally show ?thesis using False by (simp add: pow2_def)
qed

lemma pow2_pos: "0 < pow2 e"
  by (simp add: pow2_powr)

lemma pow2_mono: "e1 \<le> e2 \<Longrightarrow> pow2 e1 \<le> pow2 e2"
  by (simp add: pow2_powr)

lemma double_error:
  assumes "x \<noteq> 0"
  shows "\<bar>double x - x\<bar> \<le> pow2 (max (ilog2 \<bar>x\<bar> - 52) (- 1074)) / 2"
proof -
  define p where "p = pow2 (max (ilog2 \<bar>x\<bar> - 52) (- 1074))"
  have p: "0 < p" by (simp add: p_def pow2_pos)
  have "double x - x = (of_int (round_half_even (x / p)) - x / p) * p"
    using assms p by (simp add: double_def Let_def p_def algebra_simps)
  then have "\<bar>double x - x\<bar> = \<bar>of_int (round_half_even (x / p)) - x / p\<bar> * p"
    using p by (simp add: abs_mult)
  also have "\<dots> \<le> (1 / 2) * p"
    using round_half_even_error [of "x / p"] p by (intro mult_right_mono) simp_all
  finally show ?thesis by (simp add: p_def)
qed

lemma ilog2_small: assumes "0 < x" "x < 2" shows "ilog2 x \<le> 0"
proof (cases "1 \<le> x")
  case True
  then have "\<lfloor>x\<rfloor> = 1" using assms by linarith
  then show ?thesis using True by (simp add: ilog2_def bitlen_numeral_simps)
next
  case False
  then show ?thesis using bitlen_nonneg [of "\<lceil>1 / x\<rceil> - 1"] by (simp add: ilog2_def)
qed

lemma double_error_small:
  assumes "\<bar>x\<bar> < 2"
  shows "\<bar>double x - x\<bar> \<le> 1 / 2 ^ 53"
proof (cases "x = 0")
  case True
  then show ?thesis by (simp add: double_def)
next
  case False
  then have "ilog2 \<bar>x\<bar> \<le> 0" using assms by (intro ilog2_small) simp_all
  then have "max (ilog2 \<bar>x\<bar> - 52) (- 1074) \<le> - 52" by simp
  then have "pow2 (max (ilog2 \<bar>x\<bar> - 52) (- 1074)) \<le> pow2 (- 52)" by (rule pow2_mono)
  also have "pow2 (- 52) = 1 / 2 ^ 52" by (simp add: pow2_def)
  finally show ?thesis using double_error [OF False] by simp
qed


lemma threshold_rounding:
  assumes f: "0 \<le> f" "f \<le> 1" and s: "0 \<le> s" "s \<le> 1"
  shows "s + 1 / 2 ^ 51 < f - 0.2 \<Longrightarrow> double s < double (double f - double 0.2)"
    and "f - 0.2 + 1 / 2 ^ 51 < s \<Longrightarrow> double (double f - double 0.2) < double s"
    and "f + 0.2 + 1 / 2 ^ 51 < s \<Longrightarrow> double (double f + double 0.2) < double s"
    and "s + 1 / 2 ^ 51 < f + 0.2 \<Longrightarrow> double s < double (double f + double 0.2)"
    and "double (double f - double 0.2) \<le> double (double f + double 0.2)"
proof -
  have F: "\<bar>double f - f\<bar> \<le> 1 / 2 ^ 53" using f by (intro double_error_small) simp
  have S: "\<bar>double s - s\<bar> \<le> 1 / 2 ^ 53" using s by (intro double_error_small) simp
  have D: "\<bar>double 0.2 - 0.2\<bar> \<le> 1 / 2 ^ 53" by (intro double_error_small) simp
  have "\<bar>double f - double 0.2\<bar> < 2" using F D f by (simp add: abs_if split: if_splits)
  then have T: "\<bar>double (double f - double 0.2) - (double f - double 0.2)\<bar> \<le> 1 / 2 ^ 53"
    by (rule double_error_small)
  have "\<bar>double f + double 0.2\<bar> < 2" using F D f by (simp add: abs_if split: if_splits)
  then have U: "\<bar>double (double f + double 0.2) - (double f + double 0.2)\<bar> \<le> 1 / 2 ^ 53"
    by (rule double_error_small)
  show "s + 1 / 2 ^ 51 < f - 0.2 \<Longrightarrow> double s < double (double f - double 0.2)"
    using F S D T by (simp add: abs_if split: if_splits)
  show "f - 0.2 + 1 / 2 ^ 51 < s \<Longrightarrow> double (double f - double 0.2) < double s"
    using F S D T by (simp add: abs_if split: if_splits)
  show "f + 0.2 + 1 / 2 ^ 51 < s \<Longrightarrow> double (double f + double 0.2) < double s"
    using F S D U by (simp add: abs_if split: if_splits)
  show "s + 1 / 2 ^ 51 < f + 0.2 \<Longrightarrow> double s < double (double f + double 0.2)"
    using F S D U by (simp add: abs_if split: if_splits)
  show "double (double f - double 0.2) \<le> double (double f + double 0.2)"
    using F D T U by (simp add: abs_if split: if_splits)
qed

lemma rational_gap:
  fixes a :: int and n1 n2 :: nat
  assumes n: "0 < n1" "0 < n2" "n1 \<le> 10000000" "n2 \<le> 10000000"
    and pos: "0 < real_of_int a / (5 * real n1 * real n2)"
  shows "1 / 2 ^ 51 < real_of_int a / (5 * real n1 * real n2)"
proof -
  have d: "0 < 5 * real n1 * real n2" using n by simp
  have "real n1 * real n2 \<le> 10000000 * 10000000"
    using n by (intro mult_mono) simp_all
  then have le: "5 * real n1 * real n2 < 2 ^ 51" by simp
  from pos d have "0 < real_of_int a" by (simp add: zero_less_divide_iff)
  then have "0 < a" by simp
  then have "1 \<le> a" by simp
  then have "1 \<le> real_of_int a" by simp
  then have "1 / (5 * real n1 * real n2) \<le> real_of_int a / (5 * real n1 * real n2)"
    using d by (intro divide_right_mono) simp_all
  moreover have "1 / 2 ^ 51 < 1 / (5 * real n1 * real n2)"
    using d le by (intro divide_strict_left_mono) simp_all
  ultimately show ?thesis by linarith
qed

lemma accuracy_gap:
  fixes k1 n1 k2 n2 :: nat
  assumes n: "0 < n1" "0 < n2" "n1 \<le> 10000000" "n2 \<le> 10000000"
  shows "real k2 / real n2 < real k1 / real n1 - 0.2
           \<Longrightarrow> real k2 / real n2 + 1 / 2 ^ 51 < real k1 / real n1 - 0.2"
    and "real k1 / real n1 - 0.2 < real k2 / real n2
           \<Longrightarrow> real k1 / real n1 - 0.2 + 1 / 2 ^ 51 < real k2 / real n2"
    and "real k1 / real n1 + 0.2 < real k2 / real n2
           \<Longrightarrow> real k1 / real n1 + 0.2 + 1 / 2 ^ 51 < real k2 / real n2"
    and "real k2 / real n2 < real k1 / real n1 + 0.2
           \<Longrightarrow> real k2 / real n2 + 1 / 2 ^ 51 < real k1 / real n1 + 0.2"
proof -
  have eq1: "real k1 / real n1 - 0.2 - real k2 / real n2
       = real_of_int (5 * int k1 * int n2 - int n1 * int n2 - 5 * int k2 * int n1)
           / (5 * real n1 * real n2)"
    using n by (simp add: field_simps)
  have eq2: "real k2 / real n2 - (real k1 / real n1 - 0.2)
       = real_of_int (5 * int k2 * int n1 + int n1 * int n2 - 5 * int k1 * int n2)
           / (5 * real n1 * real n2)"
    using n by (simp add: field_simps)
  have eq3: "real k2 / real n2 - (real k1 / real n1 + 0.2)
       = real_of_int (5 * int k2 * int n1 - int n1 * int n2 - 5 * int k1 * int n2)
           / (5 * real n1 * real n2)"
    using n by (simp add: field_simps)
  have eq4: "real k1 / real n1 + 0.2 - real k2 / real n2
       = real_of_int (5 * int k1 * int n2 + int n1 * int n2 - 5 * int k2 * int n1)
           / (5 * real n1 * real n2)"
    using n by (simp add: field_simps)
  show "real k2 / real n2 < real k1 / real n1 - 0.2
           \<Longrightarrow> real k2 / real n2 + 1 / 2 ^ 51 < real k1 / real n1 - 0.2"
    using rational_gap [OF n, of "5 * int k1 * int n2 - int n1 * int n2 - 5 * int k2 * int n1"]
    unfolding eq1 [symmetric] by linarith
  show "real k1 / real n1 - 0.2 < real k2 / real n2
           \<Longrightarrow> real k1 / real n1 - 0.2 + 1 / 2 ^ 51 < real k2 / real n2"
    using rational_gap [OF n, of "5 * int k2 * int n1 + int n1 * int n2 - 5 * int k1 * int n2"]
    unfolding eq2 [symmetric] by linarith
  show "real k1 / real n1 + 0.2 < real k2 / real n2
           \<Longrightarrow> real k1 / real n1 + 0.2 + 1 / 2 ^ 51 < real k2 / real n2"
    using rational_gap [OF n, of "5 * int k2 * int n1 - int n1 * int n2 - 5 * int k1 * int n2"]
    unfolding eq3 [symmetric] by linarith
  show "real k2 / real n2 < real k1 / real n1 + 0.2
           \<Longrightarrow> real k2 / real n2 + 1 / 2 ^ 51 < real k1 / real n1 + 0.2"
    using rational_gap [OF n, of "5 * int k1 * int n2 + int n1 * int n2 - 5 * int k2 * int n1"]
    unfolding eq4 [symmetric] by linarith
qed


subsection \<open>Fatigue, decline and improvement\<close>

lemma halves_nonempty:
  assumes "5 \<le> length (answers :: answer list)"
  shows "take (length answers div 2) answers \<noteq> []
         \<and> drop (length answers div 2) answers \<noteq> []"
  using assms by (cases answers) auto

lemma exact_accuracy_range:
  "0 \<le> exact_accuracy xs \<and> exact_accuracy xs \<le> 1"
proof -
  have "length (filter is_correct xs) \<le> length xs" by simp
  then have "real (length (filter is_correct xs)) \<le> real (length xs)" by linarith
  then show ?thesis by (cases "xs = []") (simp_all add: exact_accuracy_def)
qed

lemma accuracy_of_exact:
  "xs \<noteq> [] \<Longrightarrow> accuracy_of xs = Inr (double (exact_accuracy xs))"
  by (simp add: accuracy_of_def exact_accuracy_def)

lemma identify_patterns_halves:
  assumes "5 \<le> length answers"
  shows "\<exists>p. identify_patterns answers = Inr p
           \<and> fatigue p
               = (double (exact_accuracy (drop (length answers div 2) answers))
                    < double (double (exact_accuracy (take (length answers div 2) answers))
                                - double 0.2))
           \<and> declining p = fatigue p
           \<and> improving p
               = (double (exact_accuracy (drop (length answers div 2) answers))
                    > double (double (exact_accuracy (take (length answers div 2) answers))
                                + double 0.2))"
proof -
  define F where "F = double (exact_accuracy (take (length answers div 2) answers))"
  define S where "S = double (exact_accuracy (drop (length answers div 2) answers))"
  from assms have ne: "answers \<noteq> []" by auto
  from assms have three: "3 \<le> length answers" by simp
  note h = halves_nonempty [OF assms]
  have r1: "0 \<le> exact_accuracy (take (length answers div 2) answers)"
    "exact_accuracy (take (length answers div 2) answers) \<le> 1"
    using exact_accuracy_range [of "take (length answers div 2) answers"] by simp_all
  have "double (F - double 0.2) \<le> double (F + double 0.2)"
    unfolding F_def using threshold_rounding(5) [OF r1, of 0] by simp
  then have AB: "S > double (F + double 0.2) \<Longrightarrow> \<not> S < double (F - double 0.2)"
    by linarith
  have a1: "accuracy_of (take (length answers div 2) answers) = Inr F"
    unfolding F_def using h by (intro accuracy_of_exact) simp
  have a2: "accuracy_of (drop (length answers div 2) answers) = Inr S"
    unfolding S_def using h by (intro accuracy_of_exact) simp
  have "\<exists>p. identify_patterns answers = Inr p
           \<and> fatigue p = (S < double (F - double 0.2))
           \<and> declining p = fatigue p
           \<and> improving p = (S > double (F + double 0.2))"
    using assms ne three AB
    by (cases "filter (\<lambda>a. a_question_type a = Some ''multiple_choice'') answers = []")
       (auto simp add: identify_patterns_def a1 a2 accuracy_of_exact Let_def no_patterns_def
          simp del: take_eq_Nil drop_eq_Nil)
  then show ?thesis unfolding F_def S_def .
qed

lemma identify_patterns_short:
  assumes "length answers < 5"
  shows "\<exists>p. identify_patterns answers = Inr p
           \<and> \<not> fatigue p \<and> \<not> declining p \<and> \<not> improving p"
proof (cases "filter (\<lambda>a. a_question_type a = Some ''multiple_choice'') answers = []")
  case True
  then show ?thesis using assms
    by (simp add: identify_patterns_def Let_def no_patterns_def)
next
  case False
  then show ?thesis using assms
    by (simp add: identify_patterns_def accuracy_of_exact Let_def no_patterns_def)
qed


lemma identify_patterns_exact:
  assumes "5 \<le> length answers" "length answers \<le> 10000000"
  defines "f \<equiv> exact_accuracy (take (length answers div 2) answers)"
    and "s \<equiv> exact_accuracy (drop (length answers div 2) answers)"
  shows "s < f - 0.2 \<Longrightarrow> double s < double (double f - double 0.2)"
    and "s > f - 0.2 \<Longrightarrow> \<not> double s < double (double f - double 0.2)"
    and "s > f + 0.2 \<Longrightarrow> double s > double (double f + double 0.2)"
    and "s < f + 0.2 \<Longrightarrow> \<not> double s > double (double f + double 0.2)"
proof -
  have n: "0 < length (take (length answers div 2) answers)"
    "0 < length (drop (length answers div 2) answers)"
    "length (take (length answers div 2) answers) \<le> 10000000"
    "length (drop (length answers div 2) answers) \<le> 10000000"
    using assms(1,2) by simp_all
  note g = accuracy_gap [OF n,
      where ?k1.0 = "length (filter is_correct (take (length answers div 2) answers))"
        and ?k2.0 = "length (filter is_correct (drop (length answers div 2) answers))",
      folded exact_accuracy_def, folded f_def s_def]
  have rf: "0 \<le> f" "f \<le> 1" unfolding f_def using exact_accuracy_range by simp_all
  have rs: "0 \<le> s" "s \<le> 1" unfolding s_def using exact_accuracy_range by simp_all
  note t = threshold_rounding [OF rf rs]
  show "s < f - 0.2 \<Longrightarrow> double s < double (double f - double 0.2)"
    using g(1) t(1) by blast
  show "s > f - 0.2 \<Longrightarrow> \<not> double s < double (double f - double 0.2)"
    using g(2) t(2) by fastforce
  show "s > f + 0.2 \<Longrightarrow> double s > double (double f + double 0.2)"
    using g(3) t(3) by blast
  show "s < f + 0.2 \<Longrightarrow> \<not> double s > double (double f + double 0.2)"
    using g(4) t(4) by fastforce
qed

lemma identify_patterns_flags:
  "\<exists>p. identify_patterns answers = Inr p
     \<and> (5 \<le> length answers \<longrightarrow>
          take (length answers div 2) answers \<noteq> []
          \<and> drop (length answers div 2) answers \<noteq> []
          \<and> fatigue p
              = (double (exact_accuracy (drop (length answers div 2) answers))
                   < double (double (exact_accuracy (take (length answers div 2) answers))
                               - double 0.2))
          \<and> declining p = fatigue p
          \<and> improving p
              = (double (exact_accuracy (drop (length answers div 2) answers))
                   > double (double (exact_accuracy (take (length answers div 2) answers))
                               + double 0.2))
          \<and> (length answers \<le> 10000000 \<longrightarrow>
                (exact_accuracy (drop (length answers div 2) answers)
                   < exact_accuracy (take (length answers div 2) answers) - 0.2
                 \<longrightarrow> fatigue p)
              \<and> (exact_accuracy (drop (length answers div 2) answers)
                   > exact_accuracy (take (length answers div 2) answers) - 0.2
                 \<longrightarrow> \<not> fatigue p)
              \<and> (exact_accuracy (drop (length answers div 2) answers)
                   > exact_accuracy (take (length answers div 2) answers) + 0.2
                 \<longrightarrow> improving p)
              \<and> (exact_accuracy (drop (length answers div 2) answers)
                   < exact_accuracy (take (length answers div 2) answers) + 0.2
                 \<longrightarrow> \<not> improving p)))
     \<and> (length answers < 5 \<longrightarrow> \<not> fatigue p \<and> \<not> declining p \<and> \<not> improving p)"
proof (cases "5 \<le> length answers")
  case True
  from identify_patterns_halves [OF True] obtain p where
    p: "identify_patterns answers = Inr p"
      "fatigue p
         = (double (exact_accuracy (drop (length answers div 2) answers))
              < double (double (exact_accuracy (take (length answers div 2) answers))
                          - double 0.2))"
      "declining p = fatigue p"
      "improving p
         = (double (exact_accuracy (drop (length answers div 2) answers))
              > double (double (exact_accuracy (take (length answers div 2) answers))
                          + double 0.2))"
    by blast
  show ?thesis
    using True p(1) p(3) halves_nonempty [OF True] identify_patterns_exact [OF True]
    unfolding p(2) p(4)
    by (intro exI [of _ p]) (simp add: p(2) p(4))
next
  case False
  then show ?thesis using identify_patterns_short [of answers] by auto
qed


lemma identify_patterns_three_right_three_wrong:
  "identify_patterns (map answered [True, True, True, False, False, False])
     = Inr \<lparr>rushing = False, fatigue = True, guessing = False, consistent = True,
            improving = False, declining = True\<rparr>"
  by (simp add: identify_patterns_def Let_def no_patterns_def answered_def accuracy_of_def
        is_correct_def dict_get_def double_eval)

text \<open>
  C9. The claim: with five answers or more \<^verbatim>\<open>_identify_patterns\<close> sets \<open>fatigue\<close>
  and \<open>declining\<close> exactly when the accuracy of the second half is more than 0.2
  below that of the first, and \<open>improving\<close> exactly when it is more than 0.2 above.
  The code compares floats: the accuracies are rounded quotients and the threshold is
  the rounded difference (or sum) of the first accuracy and the float 0.2. What holds
  is this. \<^verbatim>\<open>_identify_patterns\<close> raises no error. With five answers or more the
  list is cut at \<open>length div 2\<close> into two non-empty halves, \<open>declining\<close> equals
  \<open>fatigue\<close>, and the two flags are the float comparisons. For a list of at most
  ten million answers, an exact drop of more than 0.2 sets \<open>fatigue\<close>, an exact drop
  of less than 0.2 does not, and likewise for \<open>improving\<close> and a rise; a drop or rise
  of exactly 0.2 is decided by the rounding. With fewer than five answers the three
  flags stay false. Three correct answers followed by three wrong ones give
  \<open>fatigue\<close> and \<open>declining\<close>.
\<close>

theorem identify_patterns_fatigue_improving:
  "(\<exists>p. identify_patterns answers = Inr p
     \<and> (5 \<le> length answers \<longrightarrow>
          take (length answers div 2) answers \<noteq> []
          \<and> drop (length answers div 2) answers \<noteq> []
          \<and> fatigue p
              = (double (exact_accuracy (drop (length answers div 2) answers))
                   < double (double (exact_accuracy (take (length answers div 2) answers))
                               - double 0.2))
          \<and> declining p = fatigue p
          \<and> improving p
              = (double (exact_accuracy (drop (length answers div 2) answers))
                   > double (double (exact_accuracy (take (length answers div 2) answers))
                               + double 0.2))
          \<and> (length answers \<le> 10000000 \<longrightarrow>
                (exact_accuracy (drop (length answers div 2) answers)
                   < exact_accuracy (take (length answers div 2) answers) - 0.2
                 \<longrightarrow> fatigue p)
              \<and> (exact_accuracy (drop (length answers div 2) answers)
                   > exact_accuracy (take (length answers div 2) answers) - 0.2
                 \<longrightarrow> \<not> fatigue p)
              \<and> (exact_accuracy (drop (length answers div 2) answers)
                   > exact_accuracy (take (length answers div 2) answers) + 0.2
                 \<longrightarrow> improving p)
              \<and> (exact_accuracy (drop (length answers div 2) answers)
                   < exact_accuracy (take (length answers div 2) answers) + 0.2
                 \<longrightarrow> \<not> improving p)))
     \<and> (length answers < 5 \<longrightarrow> \<not> fatigue p \<and> \<not> declining p \<and> \<not> improving p))
   \<and> identify_patterns (map answered [True, True, True, False, False, False])
       = Inr \<lparr>rushing = False, fatigue = True, guessing = False, consistent = True,
              improving = False, declining = True\<rparr>"
  using identify_patterns_flags [of answers] identify_patterns_three_right_three_wrong
  by (rule conjI)

theorem identify_patterns_fatigue_improving_witness:
  "5 \<le> length (map answered [True, True, True, False, False, False])
   \<and> length (map answered [True, True, True, False, False, False]) \<le> 10000000
   \<and> exact_accuracy (drop 3 (map answered [True, True, True, False, False, False]))
       < exact_accuracy (take 3 (map answered [True, True, True, False, False, False])) - 0.2
   \<and> exact_accuracy (drop 3 (map answered [True, True, True, False, False, False]))
       < exact_accuracy (take 3 (map answered [True, True, True, False, False, False])) + 0.2
   \<and> (\<exists>p. identify_patterns (map answered [True, True, True, False, False, False]) = Inr p
          \<and> fatigue p \<and> declining p \<and> \<not> improving p)
   \<and> 5 \<le> length (map answered [False, False, False, True, True, True])
   \<and> exact_accuracy (drop 3 (map answered [False, False, False, True, True, True]))
       > exact_accuracy (take 3 (map answered [False, False, False, True, True, True])) - 0.2
   \<and> exact_accuracy (drop 3 (map answered [False, False, False, True, True, True]))
       > exact_accuracy (take 3 (map answered [False, False, False, True, True, True])) + 0.2
   \<and> (\<exists>p. identify_patterns (map answered [False, False, False, True, True, True]) = Inr p
          \<and> \<not> fatigue p \<and> \<not> declining p \<and> improving p)
   \<and> length (map answered [True, False]) < 5
   \<and> (\<exists>p. identify_patterns (map answered [True, False]) = Inr p
          \<and> \<not> fatigue p \<and> \<not> declining p \<and> \<not> improving p)"
  using identify_patterns_fatigue_improving
          [of "map answered [True, True, True, False, False, False]"]
        identify_patterns_fatigue_improving
          [of "map answered [False, False, False, True, True, True]"]
        identify_patterns_fatigue_improving [of "map answered [True, False]"]
  by (auto simp add: exact_accuracy_def answered_def is_correct_def)

text \<open>
  C9, counterexample. Four correct answers out of five followed by three out of five: the second accuracy
  is exactly 0.2 below the first, not more, and \<open>fatigue\<close> and \<open>declining\<close> are
  set, because the float \<open>0.8 - 0.2\<close> is the float next above \<open>0.6\<close>.
\<close>

theorem identify_patterns_drop_of_a_fifth:
  "identify_patterns
     (map answered [True, True, True, True, False, True, True, True, False, False])
     = Inr \<lparr>rushing = False, fatigue = True, guessing = False, consistent = True,
            improving = False, declining = True\<rparr>
   \<and> exact_accuracy
         (drop 5 (map answered [True, True, True, True, False, True, True, True, False, False]))
       = exact_accuracy
           (take 5 (map answered [True, True, True, True, False, True, True, True, False, False]))
         - 0.2"
  by (simp add: identify_patterns_def Let_def no_patterns_def answered_def accuracy_of_def
        is_correct_def dict_get_def double_eval exact_accuracy_def)

subsection \<open>Session boundaries\<close>

lemmas datetime_eval = isoformat_def pad2_def pad4_def pad6_def digit_def fromisoformat_def
  digit_val_def valid_datetime_def days_in_month_def is_leap_def dt_sub_def to_microseconds_def
  toordinal_def days_before_year_def days_before_month_def td_seconds_def td_days_def

text \<open>
  C1. The claim: \<^verbatim>\<open>get_user_history\<close> starts a new session exactly when the gap
  between two consecutive events exceeds 3600 seconds. The code tests
  \<^verbatim>\<open>(timestamp - last_timestamp).seconds > 3600\<close>, and \<^verbatim>\<open>.seconds\<close> is the
  seconds field of the normalised difference, below 86400, with the whole days left
  in \<^verbatim>\<open>.days\<close>. Two quizzes generated one day and ten seconds apart, a gap of
  86410 seconds, are summarised as one session that starts on the first day and ends
  on the second.
\<close>

theorem get_user_history_day_gap:
  "get_user_history
     (track_quiz_generation
        (track_quiz_generation no_events ''u'' () (at_time 2024 1 1 0 0 0))
        ''u'' () (at_time 2024 1 2 0 0 10))
     ''u''
     = Inr \<lparr>h_user_id = ''u'',
            recent_sessions =
              [\<lparr>s_start_time = ''2024-01-01T00:00:00'',
                s_end_time = ''2024-01-02T00:00:10'',
                s_questions_answered = 0, s_correct_answers = 0,
                s_topic_performance = [], s_bloom_performance = [],
                s_accuracy = 0\<rparr>]\<rparr>
   \<and> dt_sub (at_time 2024 1 2 0 0 10) (at_time 2024 1 1 0 0 0) = 86410 * 1000000"
  by (simp add: get_user_history_def track_quiz_generation_def append_event_def no_events_def
       at_time_def dict_get_def datetime_eval process_session_def submitted_def
       guarded_scores_def Let_def)

subsection \<open>Keys of the adapted configuration\<close>










subsection \<open>Successive calls of the configurator\<close>







subsection \<open>Running average of the response time\<close>


lemma track_answer_average:
  assumes "0 \<le> attempts_before st question_id" and "a_time_taken a = Some t"
  shows "\<exists>st1 s1. track_answer st uid question_id a now = Inr st1
           \<and> question_analytics st1 question_id = Some s1
           \<and> attempts s1 = attempts_before st question_id + 1
           \<and> average_time s1
               = double (double (double (average_before st question_id
                                           * real_of_int (attempts_before st question_id))
                                   + t)
                           / real_of_int (attempts_before st question_id + 1))"
  using assms
  by (auto simp add: track_answer_def attempts_before_def average_before_def dict_get_def
        append_event_def Let_def split: option.splits)

lemma track_answer_first:
  assumes "attempts_before st question_id = 0" and "a_time_taken a = Some t" and "double t = t"
  shows "\<exists>st1 s1. track_answer st uid question_id a now = Inr st1
           \<and> question_analytics st1 question_id = Some s1
           \<and> average_time s1 = t"
proof -
  have z: "double 0 = 0" by (simp add: double_def)
  from track_answer_average [of st question_id a t uid now] assms
  show ?thesis by (auto simp add: z)
qed


lemma track_answer_attempts:
  assumes "0 \<le> attempts_before st q" and "track_answer st uid question_id a now = Inr st1"
  shows "0 \<le> attempts_before st1 q"
  using assms
  by (auto simp add: track_answer_def attempts_before_def dict_get_def append_event_def Let_def
        split: option.splits if_splits)



end
